theory Spec2Isabelle
  imports Main
begin

section \<open>Activity signups and removals (src/activities.py)\<close>

subsection \<open>Data model\<close>

text \<open>
  The module works on a dictionary of activities. Each value is itself a dictionary with
  the fixed keys \<^verbatim>\<open>description\<close>, \<^verbatim>\<open>schedule\<close>, \<^verbatim>\<open>max_participants\<close> and
  \<^verbatim>\<open>participants\<close> (the shape used by every fixture of tests/test_activities.py); the two
  functions read and write only \<^verbatim>\<open>participants\<close>. The inner dictionary is a record,
  the outer one a map from activity names to records. Every name is bound to a record
  of its own: two names never share one record object or one participants list.
\<close>

record activity =
  description :: string
  schedule :: string
  max_participants :: int
  participants :: "string list"

type_synonym roster = "string \<rightharpoonup> activity"

text \<open>
  The exceptions the module can raise, each with its message: the two classes it
  declares, and Python's built-in \<^verbatim>\<open>ValueError\<close>.
\<close>

datatype error =
    ActivityNotFound string
  | ParticipantNotFound string
  | ValueError string

text \<open>
  Both functions return \<^verbatim>\<open>None\<close> and change the dictionary in place. A call is
  modelled by its outcome (the exception raised, or \<open>Inr ()\<close> for a normal return)
  together with the dictionary as the caller finds it afterwards.
\<close>

type_synonym outcome = "(error + unit) \<times> roster"

subsection \<open>Python's list operations\<close>

text \<open>
  \<^verbatim>\<open>xs.remove(x)\<close> deletes the first element equal to \<open>x\<close> and raises
  \<^verbatim>\<open>ValueError\<close> when there is none; \<open>None\<close> stands for that exception.
\<close>

fun list_remove :: "'a list \<Rightarrow> 'a \<Rightarrow> 'a list option" where
  "list_remove [] x = None"
| "list_remove (y # ys) x =
     (if y = x then Some ys
      else (case list_remove ys x of None \<Rightarrow> None | Some zs \<Rightarrow> Some (y # zs)))"

subsection \<open>The two operations\<close>

text \<open>
  \<^verbatim>\<open>
  def signup_participant(activities: dict, activity_name: str, email: str) -> None:
      if activity_name not in activities:
          raise ActivityNotFound(f"Activity '{activity_name}' not found")
      activity = activities[activity_name]
      if email in activity["participants"]:
          raise ValueError("Student already signed up")
      activity["participants"].append(email)
  \<close>
\<close>

definition signup_participant :: "roster \<Rightarrow> string \<Rightarrow> string \<Rightarrow> outcome" where
  "signup_participant activities activity_name email =
     (case activities activity_name of
        None \<Rightarrow>
          (Inl (ActivityNotFound
             (''Activity '' @ CHR 0x27 # activity_name @ CHR 0x27 # '' not found'')),
           activities)
      | Some activity \<Rightarrow>
          if email \<in> set (participants activity)
          then (Inl (ValueError ''Student already signed up''), activities)
          else (Inr (),
                activities(activity_name \<mapsto>
                  activity\<lparr>participants := participants activity @ [email]\<rparr>)))"

text \<open>
  \<^verbatim>\<open>
  def unregister_participant(activities: dict, activity_name: str, email: str) -> None:
      if activity_name not in activities:
          raise ActivityNotFound(f"Activity '{activity_name}' not found")
      activity = activities[activity_name]
      if email not in activity["participants"]:
          raise ParticipantNotFound(
              f"Participant '{email}' not found in '{activity_name}'"
          )
      activity["participants"].remove(email)
  \<close>
  The last line can raise \<^verbatim>\<open>ValueError\<close> by itself; the model keeps that branch.
\<close>

definition unregister_participant :: "roster \<Rightarrow> string \<Rightarrow> string \<Rightarrow> outcome" where
  "unregister_participant activities activity_name email =
     (case activities activity_name of
        None \<Rightarrow>
          (Inl (ActivityNotFound
             (''Activity '' @ CHR 0x27 # activity_name @ CHR 0x27 # '' not found'')),
           activities)
      | Some activity \<Rightarrow>
          if email \<notin> set (participants activity)
          then (Inl (ParticipantNotFound
                  (''Participant '' @ CHR 0x27 # email @ CHR 0x27 # '' not found in ''
                     @ CHR 0x27 # activity_name @ [CHR 0x27])),
                activities)
          else (case list_remove (participants activity) email of
                  None \<Rightarrow> (Inl (ValueError ''list.remove(x): x not in list''), activities)
                | Some ps \<Rightarrow>
                    (Inr (), activities(activity_name \<mapsto> activity\<lparr>participants := ps\<rparr>))))"

subsection \<open>The invariant of the data model\<close>

text \<open>No activity lists a participant twice.\<close>

definition no_duplicates :: "roster \<Rightarrow> bool" where
  "no_duplicates activities \<longleftrightarrow>
     (\<forall>activity_name activity.
        activities activity_name = Some activity \<longrightarrow> distinct (participants activity))"


subsection \<open>Example data\<close>

text \<open>The dictionary of the \<^verbatim>\<open>TestUnregisterParticipant\<close> fixture.\<close>

definition chess_club :: activity where
  "chess_club =
     \<lparr>description = ''Learn chess strategies'', schedule = ''Friday 3:30 PM'',
      max_participants = 12,
      participants = [''alice@school.edu'', ''bob@school.edu'']\<rparr>"

definition basketball :: activity where
  "basketball =
     \<lparr>description = ''Play basketball'', schedule = ''Monday 4:00 PM'',
      max_participants = 15, participants = [''charlie@school.edu'']\<rparr>"

definition sample_activities :: roster where
  "sample_activities = [''Chess Club'' \<mapsto> chess_club, ''Basketball'' \<mapsto> basketball]"

section \<open>Properties\<close>

subsection \<open>Removal from a list\<close>

lemma list_remove_member: "x \<in> set xs \<Longrightarrow> list_remove xs x = Some (remove1 x xs)"
  by (induction xs) auto

lemma list_remove_absent: "x \<notin> set xs \<Longrightarrow> list_remove xs x = None"
  by (induction xs) auto

lemma list_remove_split:
  "list_remove xs x = Some zs \<Longrightarrow>
     \<exists>pre post. xs = pre @ x # post \<and> x \<notin> set pre \<and> zs = pre @ post"
proof (induction xs arbitrary: zs)
  case Nil
  then show ?case by simp
next
  case (Cons y ys)
  show ?case
  proof (cases "y = x")
    case True
    with Cons.prems have "y # ys = [] @ x # ys \<and> x \<notin> set [] \<and> zs = [] @ ys"
      by simp
    then show ?thesis by blast
  next
    case False
    with Cons.prems obtain zs' where r: "list_remove ys x = Some zs'" and z: "zs = y # zs'"
      by (auto split: option.splits)
    from Cons.IH [OF r] obtain pre post
      where "ys = pre @ x # post" "x \<notin> set pre" "zs' = pre @ post"
      by blast
    with False z have "y # ys = (y # pre) @ x # post \<and> x \<notin> set (y # pre) \<and> zs = (y # pre) @ post"
      by simp
    then show ?thesis by blast
  qed
qed

lemma list_remove_append: "x \<notin> set xs \<Longrightarrow> list_remove (xs @ [x]) x = Some xs"
  by (induction xs) auto

subsection \<open>The branches of the two operations\<close>

lemma signup_absent:
  "activities activity_name = None \<Longrightarrow>
     signup_participant activities activity_name email =
       (Inl (ActivityNotFound
          (''Activity '' @ CHR 0x27 # activity_name @ CHR 0x27 # '' not found'')),
        activities)"
  by (simp add: signup_participant_def)

lemma signup_duplicate:
  "activities activity_name = Some activity \<Longrightarrow> email \<in> set (participants activity) \<Longrightarrow>
     signup_participant activities activity_name email =
       (Inl (ValueError ''Student already signed up''), activities)"
  by (simp add: signup_participant_def)

lemma signup_fresh:
  "activities activity_name = Some activity \<Longrightarrow> email \<notin> set (participants activity) \<Longrightarrow>
     signup_participant activities activity_name email =
       (Inr (),
        activities(activity_name \<mapsto>
          activity\<lparr>participants := participants activity @ [email]\<rparr>))"
  by (simp add: signup_participant_def)

lemma unregister_absent:
  "activities activity_name = None \<Longrightarrow>
     unregister_participant activities activity_name email =
       (Inl (ActivityNotFound
          (''Activity '' @ CHR 0x27 # activity_name @ CHR 0x27 # '' not found'')),
        activities)"
  by (simp add: unregister_participant_def)

lemma unregister_missing:
  "activities activity_name = Some activity \<Longrightarrow> email \<notin> set (participants activity) \<Longrightarrow>
     unregister_participant activities activity_name email =
       (Inl (ParticipantNotFound
          (''Participant '' @ CHR 0x27 # email @ CHR 0x27 # '' not found in ''
             @ CHR 0x27 # activity_name @ [CHR 0x27])),
        activities)"
  by (simp add: unregister_participant_def)

lemma unregister_present:
  "activities activity_name = Some activity \<Longrightarrow> email \<in> set (participants activity) \<Longrightarrow>
     unregister_participant activities activity_name email =
       (Inr (),
        activities(activity_name \<mapsto>
          activity\<lparr>participants := remove1 email (participants activity)\<rparr>))"
  by (simp add: unregister_participant_def list_remove_member)

subsection \<open>The invariant and the frame on an updated dictionary\<close>

lemma no_duplicates_sample: "no_duplicates sample_activities"
  by (auto simp: no_duplicates_def sample_activities_def chess_club_def basketball_def
      split: if_splits)

lemma no_duplicates_update:
  "no_duplicates activities \<Longrightarrow> distinct (participants activity) \<Longrightarrow>
     no_duplicates (activities(activity_name \<mapsto> activity))"
  by (simp add: no_duplicates_def)


section \<open>Claims\<close>

text \<open>
  Claim C1. \<^verbatim>\<open>signup_participant\<close> raises \<^verbatim>\<open>ActivityNotFound\<close> exactly when the
  activity name is not a key of the dictionary. When the activity exists, it raises
  \<^verbatim>\<open>ValueError\<close> exactly when the email is already in that activity's participants
  list; otherwise it returns normally, and the only change is that the email now stands
  at the end of that list.
\<close>

theorem signup_participant_outcome:
  "((\<exists>msg. fst (signup_participant activities activity_name email) = Inl (ActivityNotFound msg))
      \<longleftrightarrow> activities activity_name = None) \<and>
   (\<forall>activity. activities activity_name = Some activity \<longrightarrow>
      ((\<exists>msg. fst (signup_participant activities activity_name email) = Inl (ValueError msg))
         \<longleftrightarrow> email \<in> set (participants activity)) \<and>
      (email \<notin> set (participants activity) \<longrightarrow>
         signup_participant activities activity_name email =
           (Inr (),
            activities(activity_name \<mapsto>
              activity\<lparr>participants := participants activity @ [email]\<rparr>))))"
proof (cases "activities activity_name")
  case None
  then show ?thesis by (simp add: signup_absent)
next
  case (Some activity)
  show ?thesis
  proof (cases "email \<in> set (participants activity)")
    case True
    with Some show ?thesis by (simp add: signup_duplicate)
  next
    case False
    with Some show ?thesis by (simp add: signup_fresh)
  qed
qed

theorem signup_participant_outcome_witness:
  "(\<exists>msg. fst (signup_participant sample_activities ''Yoga Club'' ''dave@school.edu'')
            = Inl (ActivityNotFound msg)) \<and>
   (\<exists>msg. fst (signup_participant sample_activities ''Chess Club'' ''alice@school.edu'')
            = Inl (ValueError msg)) \<and>
   signup_participant sample_activities ''Chess Club'' ''dave@school.edu'' =
     (Inr (),
      sample_activities(''Chess Club'' \<mapsto>
        chess_club\<lparr>participants :=
          [''alice@school.edu'', ''bob@school.edu'', ''dave@school.edu'']\<rparr>))"
  using signup_participant_outcome [of sample_activities "''Yoga Club''" "''dave@school.edu''"]
    signup_participant_outcome [of sample_activities "''Chess Club''" "''alice@school.edu''"]
    signup_participant_outcome [of sample_activities "''Chess Club''" "''dave@school.edu''"]
  by (simp add: sample_activities_def chess_club_def)

text \<open>
  Claim C2. \<^verbatim>\<open>unregister_participant\<close> raises \<^verbatim>\<open>ActivityNotFound\<close> exactly when
  the activity name is not a key of the dictionary. When the activity exists, it raises
  \<^verbatim>\<open>ParticipantNotFound\<close> exactly when the email is not in that activity's
  participants list; otherwise it returns normally (the \<^verbatim>\<open>ValueError\<close> of
  \<^verbatim>\<open>list.remove\<close> cannot occur), and the first occurrence of the email has been
  removed from that list.
\<close>

theorem unregister_participant_outcome:
  "((\<exists>msg. fst (unregister_participant activities activity_name email) = Inl (ActivityNotFound msg))
      \<longleftrightarrow> activities activity_name = None) \<and>
   (\<forall>activity. activities activity_name = Some activity \<longrightarrow>
      ((\<exists>msg. fst (unregister_participant activities activity_name email)
                = Inl (ParticipantNotFound msg))
         \<longleftrightarrow> email \<notin> set (participants activity)) \<and>
      (email \<in> set (participants activity) \<longrightarrow>
         unregister_participant activities activity_name email =
           (Inr (),
            activities(activity_name \<mapsto>
              activity\<lparr>participants := remove1 email (participants activity)\<rparr>))))"
proof (cases "activities activity_name")
  case None
  then show ?thesis by (simp add: unregister_absent)
next
  case (Some activity)
  show ?thesis
  proof (cases "email \<in> set (participants activity)")
    case True
    with Some show ?thesis by (simp add: unregister_present)
  next
    case False
    with Some show ?thesis by (simp add: unregister_missing)
  qed
qed

theorem unregister_participant_outcome_witness:
  "(\<exists>msg. fst (unregister_participant sample_activities ''Yoga Club'' ''alice@school.edu'')
            = Inl (ActivityNotFound msg)) \<and>
   (\<exists>msg. fst (unregister_participant sample_activities ''Basketball'' ''alice@school.edu'')
            = Inl (ParticipantNotFound msg)) \<and>
   unregister_participant sample_activities ''Chess Club'' ''alice@school.edu'' =
     (Inr (),
      sample_activities(''Chess Club'' \<mapsto>
        chess_club\<lparr>participants := [''bob@school.edu'']\<rparr>))"
  using unregister_participant_outcome [of sample_activities "''Yoga Club''" "''alice@school.edu''"]
    unregister_participant_outcome [of sample_activities "''Basketball''" "''alice@school.edu''"]
    unregister_participant_outcome [of sample_activities "''Chess Club''" "''alice@school.edu''"]
  by (simp add: sample_activities_def chess_club_def basketball_def)

text \<open>
  Claim C3. When the activity exists and its participants list does not contain the
  email, \<^verbatim>\<open>signup_participant\<close> returns normally; afterwards the list is the old one
  with the email appended, so it holds the email exactly once, is one longer, and begins
  with the old elements in their old order.
\<close>

theorem signup_adds_once:
  assumes "activities activity_name = Some activity"
    and "email \<notin> set (participants activity)"
  shows "fst (signup_participant activities activity_name email) = Inr () \<and>
     (\<exists>activity'.
        snd (signup_participant activities activity_name email) activity_name = Some activity' \<and>
        participants activity' = participants activity @ [email] \<and>
        count_list (participants activity') email = 1 \<and>
        length (participants activity') = length (participants activity) + 1 \<and>
        take (length (participants activity)) (participants activity') = participants activity)"
  using assms by (simp add: signup_fresh)

theorem signup_adds_once_witness:
  "sample_activities ''Basketball'' = Some basketball \<and>
   ''alice@school.edu'' \<notin> set (participants basketball) \<and>
   fst (signup_participant sample_activities ''Basketball'' ''alice@school.edu'') = Inr () \<and>
   (\<exists>activity'.
      snd (signup_participant sample_activities ''Basketball'' ''alice@school.edu'') ''Basketball''
        = Some activity' \<and>
      participants activity' = participants basketball @ [''alice@school.edu''] \<and>
      count_list (participants activity') ''alice@school.edu'' = 1 \<and>
      length (participants activity') = length (participants basketball) + 1 \<and>
      take (length (participants basketball)) (participants activity') = participants basketball)"
proof -
  have present: "sample_activities ''Basketball'' = Some basketball"
    by (simp add: sample_activities_def)
  have fresh: "''alice@school.edu'' \<notin> set (participants basketball)"
    by (simp add: basketball_def)
  from signup_adds_once
    [of sample_activities "''Basketball''" basketball "''alice@school.edu''", OF present fresh]
    present fresh show ?thesis
    by blast
qed

text \<open>
  Claim C4. When the activity exists and its participants list contains the email,
  \<^verbatim>\<open>unregister_participant\<close> returns normally; afterwards the list is the old one
  without the first occurrence of the email (the old list is \<open>pre @ email # post\<close>
  with the email not in \<open>pre\<close>, the new one \<open>pre @ post\<close>), so it is one shorter
  and every other element keeps its place relative to the others.
\<close>

theorem unregister_removes_first:
  assumes "activities activity_name = Some activity"
    and "email \<in> set (participants activity)"
  shows "fst (unregister_participant activities activity_name email) = Inr () \<and>
     (\<exists>activity' pre post.
        snd (unregister_participant activities activity_name email) activity_name
          = Some activity' \<and>
        participants activity = pre @ email # post \<and> email \<notin> set pre \<and>
        participants activity' = pre @ post \<and>
        length (participants activity') + 1 = length (participants activity))"
proof -
  from assms(2) have "list_remove (participants activity) email
      = Some (remove1 email (participants activity))"
    by (rule list_remove_member)
  from list_remove_split [OF this] obtain pre post
    where split: "participants activity = pre @ email # post" "email \<notin> set pre"
      "remove1 email (participants activity) = pre @ post"
    by blast
  from split(1,3) have "length (remove1 email (participants activity)) + 1
      = length (participants activity)"
    by simp
  with assms split show ?thesis
    by (simp add: unregister_present) blast
qed

theorem unregister_removes_first_witness:
  "sample_activities ''Chess Club'' = Some chess_club \<and>
   ''alice@school.edu'' \<in> set (participants chess_club) \<and>
   fst (unregister_participant sample_activities ''Chess Club'' ''alice@school.edu'') = Inr () \<and>
   (\<exists>activity' pre post.
      snd (unregister_participant sample_activities ''Chess Club'' ''alice@school.edu'')
        ''Chess Club'' = Some activity' \<and>
      participants chess_club = pre @ ''alice@school.edu'' # post \<and>
      ''alice@school.edu'' \<notin> set pre \<and>
      participants activity' = pre @ post \<and>
      length (participants activity') + 1 = length (participants chess_club))"
proof -
  have present: "sample_activities ''Chess Club'' = Some chess_club"
    by (simp add: sample_activities_def)
  have member: "''alice@school.edu'' \<in> set (participants chess_club)"
    by (simp add: chess_club_def)
  from unregister_removes_first
    [of sample_activities "''Chess Club''" chess_club "''alice@school.edu''", OF present member]
    present member show ?thesis
    by blast
qed

text \<open>
  Claim C5. When the activity exists and its participants list already contains the
  email, \<^verbatim>\<open>signup_participant\<close> raises \<^verbatim>\<open>ValueError\<close>, and the dictionary, in
  particular that activity and its participants list, is the same after the call as
  before it.
\<close>

theorem signup_duplicate_unchanged:
  assumes "activities activity_name = Some activity"
    and "email \<in> set (participants activity)"
  shows "fst (signup_participant activities activity_name email)
           = Inl (ValueError ''Student already signed up'') \<and>
         snd (signup_participant activities activity_name email) = activities \<and>
         snd (signup_participant activities activity_name email) activity_name = Some activity"
  using assms by (simp add: signup_duplicate)

theorem signup_duplicate_unchanged_witness:
  "sample_activities ''Chess Club'' = Some chess_club \<and>
   ''bob@school.edu'' \<in> set (participants chess_club) \<and>
   fst (signup_participant sample_activities ''Chess Club'' ''bob@school.edu'')
     = Inl (ValueError ''Student already signed up'') \<and>
   snd (signup_participant sample_activities ''Chess Club'' ''bob@school.edu'')
     = sample_activities \<and>
   snd (signup_participant sample_activities ''Chess Club'' ''bob@school.edu'') ''Chess Club''
     = Some chess_club"
proof -
  have present: "sample_activities ''Chess Club'' = Some chess_club"
    by (simp add: sample_activities_def)
  have member: "''bob@school.edu'' \<in> set (participants chess_club)"
    by (simp add: chess_club_def)
  from signup_duplicate_unchanged
    [of sample_activities "''Chess Club''" chess_club "''bob@school.edu''", OF present member]
    present member show ?thesis
    by blast
qed

text \<open>
  Claim C6. A call of \<^verbatim>\<open>signup_participant\<close> with an activity name that is not a key
  raises \<^verbatim>\<open>ActivityNotFound\<close> and leaves the whole dictionary as it was. A call of
  \<^verbatim>\<open>unregister_participant\<close> fails when the name is not a key or the email is not in
  the named activity's participants list, and whenever it fails, for whatever reason, the
  whole dictionary is as it was.
\<close>

theorem failed_calls_leave_roster:
  "(activities activity_name = None \<longrightarrow>
      (\<exists>msg. fst (signup_participant activities activity_name email)
               = Inl (ActivityNotFound msg)) \<and>
      snd (signup_participant activities activity_name email) = activities) \<and>
   (activities activity_name = None \<or>
    (\<exists>activity. activities activity_name = Some activity \<and>
                  email \<notin> set (participants activity)) \<longrightarrow>
      (\<exists>e. fst (unregister_participant activities activity_name email) = Inl e) \<and>
      snd (unregister_participant activities activity_name email) = activities) \<and>
   (\<forall>e. fst (unregister_participant activities activity_name email) = Inl e \<longrightarrow>
      snd (unregister_participant activities activity_name email) = activities)"
proof (intro conjI impI allI)
  assume "activities activity_name = None"
  then show "\<exists>msg. fst (signup_participant activities activity_name email)
      = Inl (ActivityNotFound msg)"
    and "snd (signup_participant activities activity_name email) = activities"
    by (simp_all add: signup_absent)
next
  assume failing: "activities activity_name = None \<or>
    (\<exists>activity. activities activity_name = Some activity \<and>
                  email \<notin> set (participants activity))"
  then show "\<exists>e. fst (unregister_participant activities activity_name email) = Inl e"
    by (auto simp: unregister_absent unregister_missing)
  from failing show "snd (unregister_participant activities activity_name email) = activities"
    by (auto simp: unregister_absent unregister_missing)
next
  fix e
  assume raised: "fst (unregister_participant activities activity_name email) = Inl e"
  show "snd (unregister_participant activities activity_name email) = activities"
  proof (cases "activities activity_name")
    case None
    then show ?thesis by (simp add: unregister_absent)
  next
    case (Some activity)
    show ?thesis
    proof (cases "email \<in> set (participants activity)")
      case True
      with Some raised show ?thesis by (simp add: unregister_present)
    next
      case False
      with Some show ?thesis by (simp add: unregister_missing)
    qed
  qed
qed

theorem failed_calls_leave_roster_witness:
  "sample_activities ''Yoga Club'' = None \<and>
   (\<exists>msg. fst (signup_participant sample_activities ''Yoga Club'' ''dave@school.edu'')
            = Inl (ActivityNotFound msg)) \<and>
   snd (signup_participant sample_activities ''Yoga Club'' ''dave@school.edu'')
     = sample_activities \<and>
   (\<exists>e. fst (unregister_participant sample_activities ''Yoga Club'' ''dave@school.edu'')
          = Inl e) \<and>
   snd (unregister_participant sample_activities ''Yoga Club'' ''dave@school.edu'')
     = sample_activities \<and>
   sample_activities ''Basketball'' = Some basketball \<and>
   ''alice@school.edu'' \<notin> set (participants basketball) \<and>
   (\<exists>e. fst (unregister_participant sample_activities ''Basketball'' ''alice@school.edu'')
          = Inl e) \<and>
   snd (unregister_participant sample_activities ''Basketball'' ''alice@school.edu'')
     = sample_activities"
proof -
  have absent: "sample_activities ''Yoga Club'' = None"
    by (simp add: sample_activities_def)
  have present: "sample_activities ''Basketball'' = Some basketball"
    by (simp add: sample_activities_def)
  have missing: "''alice@school.edu'' \<notin> set (participants basketball)"
    by (simp add: basketball_def)
  from failed_calls_leave_roster
    [of sample_activities "''Yoga Club''" "''dave@school.edu''"] absent
  have yoga: "(\<exists>msg. fst (signup_participant sample_activities ''Yoga Club'' ''dave@school.edu'')
            = Inl (ActivityNotFound msg)) \<and>
   snd (signup_participant sample_activities ''Yoga Club'' ''dave@school.edu'')
     = sample_activities \<and>
   (\<exists>e. fst (unregister_participant sample_activities ''Yoga Club'' ''dave@school.edu'')
          = Inl e) \<and>
   snd (unregister_participant sample_activities ''Yoga Club'' ''dave@school.edu'')
     = sample_activities"
    by blast
  from failed_calls_leave_roster
    [of sample_activities "''Basketball''" "''alice@school.edu''"] present missing
  have ball: "(\<exists>e. fst (unregister_participant sample_activities ''Basketball'' ''alice@school.edu'')
          = Inl e) \<and>
   snd (unregister_participant sample_activities ''Basketball'' ''alice@school.edu'')
     = sample_activities"
    by blast
  from absent present missing yoga ball show ?thesis
    by blast
qed

text \<open>
  Claim C7. When the activity exists and its participants list does not contain the
  email, \<^verbatim>\<open>signup_participant\<close> followed by \<^verbatim>\<open>unregister_participant\<close> with the
  same name and email returns normally both times, and the activity's participants list
  is again exactly the list before the signup (indeed the whole dictionary is).
\<close>

theorem signup_then_unregister:
  assumes "activities activity_name = Some activity"
    and "email \<notin> set (participants activity)"
  shows "fst (signup_participant activities activity_name email) = Inr () \<and>
     fst (unregister_participant
            (snd (signup_participant activities activity_name email)) activity_name email)
       = Inr () \<and>
     (\<exists>activity'.
        snd (unregister_participant
               (snd (signup_participant activities activity_name email)) activity_name email)
          activity_name = Some activity' \<and>
        participants activity' = participants activity) \<and>
     snd (unregister_participant
            (snd (signup_participant activities activity_name email)) activity_name email)
       = activities"
proof -
  let ?signed = "activity\<lparr>participants := participants activity @ [email]\<rparr>"
  let ?after = "activities(activity_name \<mapsto> ?signed)"
  from assms have signup: "signup_participant activities activity_name email = (Inr (), ?after)"
    by (rule signup_fresh)
  have "?after activity_name = Some ?signed" and "email \<in> set (participants ?signed)"
    by simp_all
  then have "unregister_participant ?after activity_name email =
      (Inr (), ?after(activity_name \<mapsto>
         ?signed\<lparr>participants := remove1 email (participants ?signed)\<rparr>))"
    by (rule unregister_present)
  moreover from assms(2) have "remove1 email (participants ?signed) = participants activity"
    by (simp add: remove1_append)
  moreover from assms(1) have "activities(activity_name \<mapsto> activity) = activities"
    by (rule map_upd_triv)
  ultimately have "unregister_participant ?after activity_name email = (Inr (), activities)"
    by simp
  with signup assms(1) show ?thesis
    by simp
qed

theorem signup_then_unregister_witness:
  "sample_activities ''Basketball'' = Some basketball \<and>
   ''alice@school.edu'' \<notin> set (participants basketball) \<and>
   fst (signup_participant sample_activities ''Basketball'' ''alice@school.edu'') = Inr () \<and>
   fst (unregister_participant
          (snd (signup_participant sample_activities ''Basketball'' ''alice@school.edu''))
          ''Basketball'' ''alice@school.edu'') = Inr () \<and>
   (\<exists>activity'.
      snd (unregister_participant
             (snd (signup_participant sample_activities ''Basketball'' ''alice@school.edu''))
             ''Basketball'' ''alice@school.edu'') ''Basketball'' = Some activity' \<and>
      participants activity' = participants basketball) \<and>
   snd (unregister_participant
          (snd (signup_participant sample_activities ''Basketball'' ''alice@school.edu''))
          ''Basketball'' ''alice@school.edu'') = sample_activities"
proof -
  have present: "sample_activities ''Basketball'' = Some basketball"
    by (simp add: sample_activities_def)
  have fresh: "''alice@school.edu'' \<notin> set (participants basketball)"
    by (simp add: basketball_def)
  from signup_then_unregister
    [of sample_activities "''Basketball''" basketball "''alice@school.edu''", OF present fresh]
    present fresh show ?thesis
    by blast
qed

text \<open>
  Claim C8. Both operations preserve the invariant: if no activity of the dictionary
  lists a participant twice, the same holds of the dictionary after any call of
  \<^verbatim>\<open>signup_participant\<close> or \<^verbatim>\<open>unregister_participant\<close>, whether the call returns
  normally or raises.
\<close>

theorem no_duplicates_preserved:
  assumes "no_duplicates activities"
  shows "no_duplicates (snd (signup_participant activities activity_name email)) \<and>
         no_duplicates (snd (unregister_participant activities activity_name email))"
proof (cases "activities activity_name")
  case None
  with assms show ?thesis by (simp add: signup_absent unregister_absent)
next
  case (Some activity)
  with assms have old: "distinct (participants activity)"
    by (simp add: no_duplicates_def)
  show ?thesis
  proof (cases "email \<in> set (participants activity)")
    case True
    from old have "distinct (participants (activity\<lparr>participants :=
        remove1 email (participants activity)\<rparr>))"
      by simp
    with assms have "no_duplicates (activities(activity_name \<mapsto>
        activity\<lparr>participants := remove1 email (participants activity)\<rparr>))"
      by (rule no_duplicates_update)
    with assms Some True show ?thesis
      by (simp add: signup_duplicate unregister_present)
  next
    case False
    with old have "distinct (participants (activity\<lparr>participants :=
        participants activity @ [email]\<rparr>))"
      by simp
    with assms have "no_duplicates (activities(activity_name \<mapsto>
        activity\<lparr>participants := participants activity @ [email]\<rparr>))"
      by (rule no_duplicates_update)
    with assms Some False show ?thesis
      by (simp add: signup_fresh unregister_missing)
  qed
qed

theorem no_duplicates_preserved_witness:
  "no_duplicates sample_activities \<and>
   no_duplicates (snd (signup_participant sample_activities ''Chess Club'' ''dave@school.edu'')) \<and>
   no_duplicates
     (snd (unregister_participant sample_activities ''Chess Club'' ''dave@school.edu''))"
  using no_duplicates_preserved [OF no_duplicates_sample, of "''Chess Club''" "''dave@school.edu''"]
    no_duplicates_sample
  by blast

text \<open>
  Claim C9. The capacity plays no role in \<^verbatim>\<open>signup_participant\<close>: whatever value
  \<^verbatim>\<open>max_participants\<close> has, also one that the length of the list has reached or
  passed, a signup of an email that is not yet in the activity's participants list
  returns normally with the email appended and the capacity untouched.
\<close>

theorem signup_ignores_capacity:
  assumes "email \<notin> set (participants activity)"
  shows "signup_participant
           (activities(activity_name \<mapsto> activity\<lparr>max_participants := capacity\<rparr>))
           activity_name email =
         (Inr (),
          activities(activity_name \<mapsto>
            activity\<lparr>max_participants := capacity,
                      participants := participants activity @ [email]\<rparr>))"
proof -
  let ?activity = "activity\<lparr>max_participants := capacity\<rparr>"
  let ?activities = "activities(activity_name \<mapsto> ?activity)"
  have "?activities activity_name = Some ?activity"
    by simp
  moreover from assms have "email \<notin> set (participants ?activity)"
    by simp
  ultimately have "signup_participant ?activities activity_name email =
      (Inr (), ?activities(activity_name \<mapsto>
         ?activity\<lparr>participants := participants ?activity @ [email]\<rparr>))"
    by (rule signup_fresh)
  then show ?thesis by simp
qed

theorem signup_ignores_capacity_witness:
  "''dave@school.edu'' \<notin> set (participants chess_club) \<and>
   (1::int) \<le> int (length (participants chess_club)) \<and>
   signup_participant
     (sample_activities(''Chess Club'' \<mapsto> chess_club\<lparr>max_participants := 1\<rparr>))
     ''Chess Club'' ''dave@school.edu'' =
   (Inr (),
    sample_activities(''Chess Club'' \<mapsto>
      chess_club\<lparr>max_participants := 1,
                  participants := participants chess_club @ [''dave@school.edu'']\<rparr>))"
proof -
  have fresh: "''dave@school.edu'' \<notin> set (participants chess_club)"
    by (simp add: chess_club_def)
  have full: "(1::int) \<le> int (length (participants chess_club))"
    by (simp add: chess_club_def)
  from signup_ignores_capacity
    [of "''dave@school.edu''" chess_club sample_activities "''Chess Club''" 1, OF fresh]
    fresh full show ?thesis
    by blast
qed



end
